theory Spec2Isabelle
  imports Main
begin

section \<open>Data model: configuration values\<close>

text \<open>
  The repository holds configuration data only.  The JSON files (the linter
  configuration and the JSON blocks of the README) are values of the type
  \<open>json\<close>; an object is an association list, so the order of the keys in the
  file is kept.
\<close>

datatype json =
    JNull
  | JBool bool
  | JNum int
  | JStr string
  | JArr "json list"
  | JObj "(string \<times> json) list"

fun obj_fields :: "json \<Rightarrow> (string \<times> json) list" where
  "obj_fields (JObj kvs) = kvs"
| "obj_fields _ = []"

fun elements :: "json \<Rightarrow> json list" where
  "elements (JArr xs) = xs"
| "elements _ = []"

fun is_object :: "json \<Rightarrow> bool" where
  "is_object (JObj _) = True"
| "is_object _ = False"

fun is_array :: "json \<Rightarrow> bool" where
  "is_array (JArr _) = True"
| "is_array _ = False"

fun is_string :: "json \<Rightarrow> bool" where
  "is_string (JStr _) = True"
| "is_string _ = False"

fun is_bool :: "json \<Rightarrow> bool" where
  "is_bool (JBool _) = True"
| "is_bool _ = False"

fun str_of :: "json \<Rightarrow> string option" where
  "str_of (JStr s) = Some s"
| "str_of _ = None"

text \<open>The keys of an object, in the order of the file.\<close>

definition keys :: "json \<Rightarrow> string list" where
  "keys j = map fst (obj_fields j)"

text \<open>
  Member access \<open>j[k]\<close>.  A JSON parser keeps the last of two equal keys, hence
  the reversal; \<open>None\<close> is a missing key (or a value that is no object).
\<close>

definition field :: "string \<Rightarrow> json \<Rightarrow> json option" where
  "field k j = map_of (rev (obj_fields j)) k"

text \<open>Access along a path of keys, \<open>j[k1][k2]...\<close>.\<close>

fun field_at :: "string list \<Rightarrow> json \<Rightarrow> json option" where
  "field_at [] j = Some j"
| "field_at (k # ks) j = (case field k j of None \<Rightarrow> None | Some v \<Rightarrow> field_at ks v)"

text \<open>The strings of an array of strings (other elements are dropped).\<close>

definition strings_of :: "json \<Rightarrow> string list" where
  "strings_of j = List.map_filter str_of (elements j)"

definition starts_with :: "string \<Rightarrow> string \<Rightarrow> bool" where
  "starts_with p s = (take (length p) s = p)"

definition ends_with :: "string \<Rightarrow> string \<Rightarrow> bool" where
  "ends_with p s = (length p \<le> length s \<and> drop (length s - length p) s = p)"

text \<open>
  Splitting a list at every occurrence of a separator, as \<open>split\<close> of the
  string libraries does: \<open>n\<close> separators give \<open>n + 1\<close> pieces, some perhaps empty.
\<close>

fun split_on :: "'a \<Rightarrow> 'a list \<Rightarrow> 'a list list" where
  "split_on sep [] = [[]]"
| "split_on sep (c # cs) =
     (if c = sep then [] # split_on sep cs
      else (case split_on sep cs of [] \<Rightarrow> [[c]] | s # ss \<Rightarrow> (c # s) # ss))"

section \<open>The linter configuration, \<open>.eslintrc.json\<close>\<close>

definition eslintrc :: json where
  "eslintrc = JObj [
     (''env'', JObj [
        (''browser'', JBool True),
        (''es6'', JBool True),
        (''node'', JBool True)]),
     (''extends'', JArr [
        JStr ''eslint:recommended'',
        JStr ''plugin:react/recommended'',
        JStr ''plugin:react-hooks/recommended'',
        JStr ''plugin:@typescript-eslint/eslint-recommended'',
        JStr ''plugin:@typescript-eslint/recommended'',
        JStr ''plugin:import/warnings'',
        JStr ''plugin:import/typescript'',
        JStr ''prettier'']),
     (''parser'', JStr ''@typescript-eslint/parser''),
     (''parserOptions'', JObj [
        (''ecmaVersion'', JStr ''latest''),
        (''sourceType'', JStr ''module''),
        (''ecmaFeatures'', JObj [(''jsx'', JBool True)])]),
     (''plugins'', JArr [
        JStr ''react'', JStr ''react-refresh'', JStr ''react-hooks'',
        JStr ''import'', JStr ''@typescript-eslint'', JStr ''prettier'']),
     (''rules'', JObj [
        (''react/jsx-key'', JStr ''warn''),
        (''react/prop-types'', JStr ''off''),
        (''react/display-name'', JStr ''warn''),
        (''react/no-children-prop'', JStr ''warn''),
        (''react/react-in-jsx-scope'', JStr ''off''),
        (''react/button-has-type'', JStr ''warn''),
        (''react-hooks/exhaustive-deps'', JStr ''off''),
        (''react-hooks/rules-of-hooks'', JStr ''error''),
        (''@typescript-eslint/no-unused-vars'', JStr ''warn''),
        (''no-case-declarations'', JStr ''warn''),
        (''no-console'', JStr ''warn''),
        (''react-refresh/only-export-components'', JStr ''warn''),
        (''@typescript-eslint/explicit-function-return-type'', JStr ''off''),
        (''@typescript-eslint/no-explicit-any'', JStr ''warn''),
        (''no-unsafe-optional-chaining'', JStr ''warn''),
        (''import/order'', JArr [
           JStr ''error'',
           JObj [(''groups'', JArr [
              JStr ''builtin'', JStr ''external'', JStr ''internal'',
              JStr ''parent'', JStr ''sibling''])]]),
        (''prettier/prettier'', JArr [
           JStr ''warn'',
           JObj [(''endOfLine'', JStr ''auto'')]])]),
     (''settings'', JObj [
        (''react'', JObj [(''version'', JStr ''detect'')]),
        (''import/resolver'', JObj [
           (''node'', JObj [
              (''extensions'', JArr [
                 JStr ''.js'', JStr ''.jsx'', JStr ''.ts'', JStr ''.tsx''])])])])]"

text \<open>The three parts of the linter configuration that the rules refer to.\<close>

definition eslint_rules :: "(string \<times> json) list" where
  "eslint_rules = (case field ''rules'' eslintrc of None \<Rightarrow> [] | Some r \<Rightarrow> obj_fields r)"

definition eslint_plugins :: "string list" where
  "eslint_plugins = (case field ''plugins'' eslintrc of None \<Rightarrow> [] | Some p \<Rightarrow> strings_of p)"

definition eslint_extends :: "string list" where
  "eslint_extends = (case field ''extends'' eslintrc of None \<Rightarrow> [] | Some e \<Rightarrow> strings_of e)"

text \<open>
  A rule name \<open>plugin/rule\<close> names its plugin before the last slash (so
  \<open>@typescript-eslint/no-explicit-any\<close> belongs to \<open>@typescript-eslint\<close>); a name
  with no slash is a rule of the linter's core.
\<close>

definition before_last_slash :: "string \<Rightarrow> string" where
  "before_last_slash s = rev (tl (dropWhile (\<lambda>c. c \<noteq> CHR ''/'') (rev s)))"

definition rule_plugin :: "string \<Rightarrow> string option" where
  "rule_plugin name =
     (if CHR ''/'' \<in> set name then Some (before_last_slash name) else None)"

text \<open>
  An \<open>extends\<close> entry \<open>plugin:NAME/CONFIG\<close> takes a configuration from the plugin
  \<open>NAME\<close>; any other entry (\<open>eslint:recommended\<close>, \<open>prettier\<close>) names no plugin.
\<close>

definition extends_plugin :: "string \<Rightarrow> string option" where
  "extends_plugin e =
     (if starts_with ''plugin:'' e \<and> CHR ''/'' \<in> set e
      then Some (before_last_slash (drop (length ''plugin:'') e)) else None)"

definition extends_plugins :: "string list" where
  "extends_plugins = List.map_filter extends_plugin eslint_extends"

text \<open>
  A rule is declared when it is a core rule and the configuration extends
  \<open>eslint:recommended\<close>, or when its plugin is listed in \<open>plugins\<close> or is the
  plugin of an \<open>extends\<close> entry.
\<close>

definition rule_declared :: "string \<Rightarrow> bool" where
  "rule_declared name =
     (case rule_plugin name of
        None \<Rightarrow> ''eslint:recommended'' \<in> set eslint_extends
      | Some p \<Rightarrow> p \<in> set eslint_plugins \<or> p \<in> set extends_plugins)"

text \<open>
  The severity of a rule: the value itself, or the first element when the
  value is an array (\<open>None\<close> for an empty array).
\<close>

fun severity :: "json \<Rightarrow> json option" where
  "severity (JArr []) = None"
| "severity (JArr (s # opts)) = Some s"
| "severity v = Some v"

text \<open>The shape of a rule's value: a severity string, or a pair of one and its options.\<close>

fun rule_value_ok :: "json \<Rightarrow> bool" where
  "rule_value_ok (JStr s) = True"
| "rule_value_ok (JArr [JStr s, opts]) = True"
| "rule_value_ok _ = False"

definition rules_with_severity :: "string \<Rightarrow> string list" where
  "rules_with_severity s =
     map fst (filter (\<lambda>(name, v). severity v = Some (JStr s)) eslint_rules)"

section \<open>Resolving paths\<close>

text \<open>
  The bundler configuration calls \<open>path.resolve(__dirname, p)\<close> of the Node
  runtime.  On a POSIX system that function joins its arguments from the right
  until the path is absolute (falling back to the working directory \<open>cwd\<close>, which
  is absolute), splits at the slashes, drops empty and \<open>.\<close> segments, lets
  \<open>..\<close> remove the segment before it (nothing at the root) and prints the
  segments, each after a slash.
\<close>

definition is_absolute :: "string \<Rightarrow> bool" where
  "is_absolute p = (case p of [] \<Rightarrow> False | c # cs \<Rightarrow> c = CHR ''/'')"

definition split_path :: "string \<Rightarrow> string list" where
  "split_path p = split_on CHR ''/'' p"

definition norm_step :: "string list \<Rightarrow> string \<Rightarrow> string list" where
  "norm_step acc seg =
     (if seg = [] \<or> seg = ''.'' then acc
      else if seg = ''..'' then butlast acc
      else acc @ [seg])"

definition normalize_segments :: "string list \<Rightarrow> string list" where
  "normalize_segments segs = foldl norm_step [] segs"

definition render_path :: "string list \<Rightarrow> string" where
  "render_path segs = (if segs = [] then ''/'' else concat (map (\<lambda>s. CHR ''/'' # s) segs))"

definition path_resolve :: "string \<Rightarrow> string \<Rightarrow> string \<Rightarrow> string" where
  "path_resolve cwd from to =
     render_path (normalize_segments (split_path
       (if is_absolute to then to
        else if is_absolute from then from @ ''/'' @ to
        else cwd @ ''/'' @ from @ ''/'' @ to)))"

text \<open>The segments of the directory that a relative second argument is resolved against.\<close>

definition base_segments :: "string \<Rightarrow> string \<Rightarrow> string list" where
  "base_segments cwd from =
     normalize_segments (split_path (if is_absolute from then from else cwd @ ''/'' @ from))"

definition special_segment :: "string \<Rightarrow> bool" where
  "special_segment s = (s = [] \<or> s = ''.'' \<or> s = ''..'' \<or> CHR ''/'' \<in> set s)"

text \<open>
  The directory \<open>from\<close> as \<open>path_resolve\<close> prints it in front of what is appended
  to it (empty for the root, whose children are \<open>/name\<close>).
\<close>

definition project_dir :: "string \<Rightarrow> string \<Rightarrow> string" where
  "project_dir cwd from = concat (map (\<lambda>s. CHR ''/'' # s) (base_segments cwd from))"

text \<open>
  \<open>inside_dir dir p\<close>: the path \<open>p\<close> is the directory \<open>dir\<close> or lies below it;
  \<open>below_dir dir p\<close>: it lies properly below it.  Both read resolved paths, which
  end in no slash.
\<close>

definition below_dir :: "string \<Rightarrow> string \<Rightarrow> bool" where
  "below_dir dir p = (starts_with (dir @ ''/'') p \<and> length (dir @ ''/'') < length p)"

definition inside_dir :: "string \<Rightarrow> string \<Rightarrow> bool" where
  "inside_dir dir p = (p = dir \<or> below_dir dir p)"

section \<open>The bundler configuration, \<open>vite.config.ts\<close>\<close>

text \<open>
  The module builds one object literal.  Its values are strings, arrays and
  objects, and the value of the call \<open>react()\<close> of the imported plugin, which is
  kept opaque (\<open>VExt\<close>).  An object is an association list in the order of the
  literal.
\<close>

datatype 'p js_value =
    VStr string
  | VArr "'p js_value list"
  | VObj "(string \<times> 'p js_value) list"
  | VExt 'p

fun js_fields :: "'p js_value \<Rightarrow> (string \<times> 'p js_value) list" where
  "js_fields (VObj kvs) = kvs"
| "js_fields _ = []"

fun js_elements :: "'p js_value \<Rightarrow> 'p js_value list" where
  "js_elements (VArr xs) = xs"
| "js_elements _ = []"

fun js_is_object :: "'p js_value \<Rightarrow> bool" where
  "js_is_object (VObj _) = True"
| "js_is_object _ = False"

fun js_is_array :: "'p js_value \<Rightarrow> bool" where
  "js_is_array (VArr _) = True"
| "js_is_array _ = False"

fun js_is_string :: "'p js_value \<Rightarrow> bool" where
  "js_is_string (VStr _) = True"
| "js_is_string _ = False"

fun js_str_of :: "'p js_value \<Rightarrow> string option" where
  "js_str_of (VStr s) = Some s"
| "js_str_of _ = None"

definition js_keys :: "'p js_value \<Rightarrow> string list" where
  "js_keys v = map fst (js_fields v)"

definition js_field :: "string \<Rightarrow> 'p js_value \<Rightarrow> 'p js_value option" where
  "js_field k v = map_of (rev (js_fields v)) k"

text \<open>A module is the list of its exports, each under its name.\<close>

type_synonym 'p es_module = "(string \<times> 'p js_value) list"

text \<open>\<open>defineConfig\<close> of the bundler returns the configuration it is given.\<close>

definition defineConfig :: "'p js_value \<Rightarrow> 'p js_value" where
  "defineConfig config = config"

text \<open>
  The module \<open>vite.config.ts\<close>.  Its free names are parameters: the working
  directory (read by \<open>path.resolve\<close>), \<open>__dirname\<close> and the imported plugin
  factory \<open>react\<close>.
\<close>

definition vite_config_ts :: "string \<Rightarrow> string \<Rightarrow> (unit \<Rightarrow> 'p) \<Rightarrow> 'p es_module" where
  "vite_config_ts cwd dirname react = [(''default'', defineConfig (VObj [
     (''resolve'', VObj [
        (''alias'', VObj [
           (''@UI'', VStr (path_resolve cwd dirname ''./src/shared/UI'')),

           (''@services'', VStr (path_resolve cwd dirname ''./src/app/api/services'')),
           (''@servicesTypes'', VStr (path_resolve cwd dirname ''./src/app/api/types'')),
           (''@constants'', VStr (path_resolve cwd dirname ''./src/app/constants'')),

           (''@app'', VStr (path_resolve cwd dirname ''./src/app'')),
           (''@assets'', VStr (path_resolve cwd dirname ''./src/assets'')),
           (''@components'', VStr (path_resolve cwd dirname ''./src/components'')),
           (''@shadecn'', VStr (path_resolve cwd dirname ''./src/shadecn'')),
           (''@hooks'', VStr (path_resolve cwd dirname ''./src/hooks'')),
           (''@store'', VStr (path_resolve cwd dirname ''./src/store'')),

           (''@'', VStr (path_resolve cwd dirname ''./src''))])]),
     (''plugins'', VArr [VExt (react ())])]))]"

text \<open>The same module as the README prints it (section \<open>Vite Configuration\<close>).\<close>

definition readme_vite_config_js :: "string \<Rightarrow> string \<Rightarrow> (unit \<Rightarrow> 'p) \<Rightarrow> 'p es_module" where
  "readme_vite_config_js cwd dirname react = [(''default'', defineConfig (VObj [
     (''resolve'', VObj [
        (''alias'', VObj [
           (''@UI'', VStr (path_resolve cwd dirname ''./src/shared/UI'')),
           (''@services'', VStr (path_resolve cwd dirname ''./src/app/api/services'')),
           (''@servicesTypes'', VStr (path_resolve cwd dirname ''./src/app/api/types'')),
           (''@constants'', VStr (path_resolve cwd dirname ''./src/app/constants'')),
           (''@app'', VStr (path_resolve cwd dirname ''./src/app'')),
           (''@assets'', VStr (path_resolve cwd dirname ''./src/assets'')),
           (''@components'', VStr (path_resolve cwd dirname ''./src/components'')),
           (''@shadecn'', VStr (path_resolve cwd dirname ''./src/shadecn'')),
           (''@hooks'', VStr (path_resolve cwd dirname ''./src/hooks'')),
           (''@store'', VStr (path_resolve cwd dirname ''./src/store'')),
           (''@'', VStr (path_resolve cwd dirname ''./src''))])]),
     (''plugins'', VArr [VExt (react ())])]))]"

text \<open>The names a module exports, and its default export.\<close>

definition export_names :: "'p es_module \<Rightarrow> string list" where
  "export_names m = map fst m"

definition default_export :: "'p es_module \<Rightarrow> 'p js_value option" where
  "default_export m = map_of m ''default''"

text \<open>
  \<open>resolve.alias\<close> and \<open>plugins\<close> of the configuration a module exports by
  default (\<open>None\<close> when a step of the access is missing).
\<close>

definition config_alias :: "'p es_module \<Rightarrow> 'p js_value option" where
  "config_alias m =
     (case default_export m of None \<Rightarrow> None
      | Some cfg \<Rightarrow> (case js_field ''resolve'' cfg of None \<Rightarrow> None
          | Some r \<Rightarrow> js_field ''alias'' r))"

definition config_plugins :: "'p es_module \<Rightarrow> 'p js_value option" where
  "config_plugins m =
     (case default_export m of None \<Rightarrow> None | Some cfg \<Rightarrow> js_field ''plugins'' cfg)"

text \<open>The alias map as pairs of an alias and the path it stands for.\<close>

definition alias_entries :: "'p es_module \<Rightarrow> (string \<times> string) list" where
  "alias_entries m =
     (case config_alias m of None \<Rightarrow> []
      | Some a \<Rightarrow> List.map_filter (\<lambda>(k, v). map_option (Pair k) (js_str_of v)) (js_fields a))"

section \<open>The configurations printed in the README\<close>

text \<open>
  The three type-checker configurations of \<open>README.md\<close>.  Their comments
  (\<open>/* Bundler mode */\<close>, \<open>/* Linting */\<close>) carry no data and are left out.
\<close>

definition tsconfig_json :: json where
  "tsconfig_json = JObj [
     (''compilerOptions'', JObj [
        (''target'', JStr ''ESNext''),
        (''useDefineForClassFields'', JBool True),
        (''lib'', JArr [JStr ''DOM'', JStr ''DOM.Iterable'', JStr ''ESNext'']),
        (''allowJs'', JBool False),
        (''skipLibCheck'', JBool True),
        (''esModuleInterop'', JBool False),
        (''allowSyntheticDefaultImports'', JBool True),
        (''strict'', JBool False),
        (''forceConsistentCasingInFileNames'', JBool True),
        (''module'', JStr ''ESNext''),
        (''moduleResolution'', JStr ''Node''),
        (''resolveJsonModule'', JBool True),
        (''isolatedModules'', JBool True),
        (''noEmit'', JBool True),
        (''jsx'', JStr ''react-jsx''),
        (''baseUrl'', JStr ''./''),
        (''paths'', JObj [
           (''@UI/*'', JArr [JStr ''src/shared/UI/*'']),
           (''@services/*'', JArr [JStr ''src/app/api/services/*'']),
           (''@servicesTypes/*'', JArr [JStr ''src/app/api/types/*'']),
           (''@constants/*'', JArr [JStr ''src/app/constants/*'']),
           (''@app/*'', JArr [JStr ''src/app/*'']),
           (''@store/*'', JArr [JStr ''src/store/*'']),
           (''@shadecn/*'', JArr [JStr ''src/shadecn/*'']),
           (''@components/*'', JArr [JStr ''src/components/*'']),
           (''@assets/*'', JArr [JStr ''src/assets/*'']),
           (''@hooks'', JArr [JStr ''src/hooks'']),
           (''@/*'', JArr [JStr ''src/*''])])]),
     (''include'', JArr [JStr ''src'']),
     (''references'', JArr [
        JObj [(''path'', JStr ''./tsconfig.node.json'')]])]"

definition tsconfig_node_json :: json where
  "tsconfig_node_json = JObj [
     (''compilerOptions'', JObj [
        (''target'', JStr ''ES2022''),
        (''lib'', JArr [JStr ''ES2023'']),
        (''module'', JStr ''ESNext''),
        (''skipLibCheck'', JBool True),
        (''composite'', JBool True),

        (''moduleResolution'', JStr ''bundler''),
        (''allowImportingTsExtensions'', JBool False),
        (''isolatedModules'', JBool True),
        (''moduleDetection'', JStr ''force''),
        (''noEmit'', JBool False),

        (''strict'', JBool True),
        (''noUnusedLocals'', JBool True),
        (''noUnusedParameters'', JBool True),
        (''noFallthroughCasesInSwitch'', JBool True)]),
     (''include'', JArr [JStr ''vite.config.ts''])]"

definition tsconfig_app_json :: json where
  "tsconfig_app_json = JObj [
     (''compilerOptions'', JObj [
        (''target'', JStr ''ES2020''),
        (''useDefineForClassFields'', JBool True),
        (''lib'', JArr [JStr ''ES2020'', JStr ''DOM'', JStr ''DOM.Iterable'']),
        (''module'', JStr ''ESNext''),
        (''skipLibCheck'', JBool True),

        (''moduleResolution'', JStr ''bundler''),
        (''allowImportingTsExtensions'', JBool True),
        (''isolatedModules'', JBool True),
        (''moduleDetection'', JStr ''force''),
        (''noEmit'', JBool True),
        (''jsx'', JStr ''react-jsx''),

        (''strict'', JBool True),
        (''noUnusedLocals'', JBool True),
        (''noUnusedParameters'', JBool True),
        (''noFallthroughCasesInSwitch'', JBool True)]),
     (''include'', JArr [JStr ''src''])]"

definition tsconfigs :: "(string \<times> json) list" where
  "tsconfigs = [
     (''tsconfig.json'', tsconfig_json),
     (''tsconfig.node.json'', tsconfig_node_json),
     (''tsconfig.app.json'', tsconfig_app_json)]"

text \<open>
  What the claims ask of a type-checker configuration: an object whose
  \<open>compilerOptions\<close> is an object with a string \<open>target\<close>, a string \<open>module\<close>,
  an array \<open>lib\<close> and a boolean \<open>strict\<close>, whose \<open>paths\<close>, if there, is an
  object, and whose \<open>include\<close> is an array.
\<close>

definition field_is :: "(json \<Rightarrow> bool) \<Rightarrow> string list \<Rightarrow> json \<Rightarrow> bool" where
  "field_is P ks j = (case field_at ks j of None \<Rightarrow> False | Some v \<Rightarrow> P v)"

definition field_missing_or :: "(json \<Rightarrow> bool) \<Rightarrow> string list \<Rightarrow> json \<Rightarrow> bool" where
  "field_missing_or P ks j = (case field_at ks j of None \<Rightarrow> True | Some v \<Rightarrow> P v)"

definition has_compiler_options :: "json \<Rightarrow> bool" where
  "has_compiler_options j =
     (is_object j
      \<and> field_is is_object [''compilerOptions''] j
      \<and> field_is is_string [''compilerOptions'', ''target''] j
      \<and> field_is is_string [''compilerOptions'', ''module''] j
      \<and> field_is is_array [''compilerOptions'', ''lib''] j
      \<and> field_is is_bool [''compilerOptions'', ''strict''] j
      \<and> field_missing_or is_object [''compilerOptions'', ''paths''] j)"

definition has_include :: "json \<Rightarrow> bool" where
  "has_include j = field_is is_array [''include''] j"

definition has_references :: "json \<Rightarrow> bool" where
  "has_references j = field_is is_array [''references''] j"

text \<open>The path aliases of \<open>tsconfig.json\<close> and the directory they are relative to.\<close>

definition tsconfig_paths :: "(string \<times> json) list" where
  "tsconfig_paths =
     (case field_at [''compilerOptions'', ''paths''] tsconfig_json of
        None \<Rightarrow> [] | Some p \<Rightarrow> obj_fields p)"

definition tsconfig_base_url :: string where
  "tsconfig_base_url =
     (case field_at [''compilerOptions'', ''baseUrl''] tsconfig_json of
        Some (JStr b) \<Rightarrow> b | _ \<Rightarrow> ''.'')"

text \<open>
  A key \<open>@UI/*\<close> of \<open>paths\<close> declares the alias \<open>@UI\<close>, and a target
  \<open>src/shared/UI/*\<close> the directory \<open>src/shared/UI\<close>: the final \<open>/*\<close>, where there
  is one, stands for the rest of the import.
\<close>

definition strip_wildcard :: "string \<Rightarrow> string" where
  "strip_wildcard s = (if ends_with ''/*'' s then take (length s - 2) s else s)"

text \<open>
  The alias map the type checker reads: each alias with the directories of its
  targets.  The type checker resolves \<open>baseUrl\<close> against the directory \<open>dir\<close>
  of the configuration file, and a target against \<open>baseUrl\<close>.
\<close>

definition ts_alias_map :: "string \<Rightarrow> string \<Rightarrow> (string \<times> string list) list" where
  "ts_alias_map cwd dir =
     map (\<lambda>(k, targets).
            (strip_wildcard k,
             map (\<lambda>t. path_resolve cwd (path_resolve cwd dir tsconfig_base_url) (strip_wildcard t))
               (strings_of targets)))
       tsconfig_paths"

text \<open>The alias map of the bundler in the same form: each alias has one directory.\<close>

definition bundler_alias_map :: "'p es_module \<Rightarrow> (string \<times> string list) list" where
  "bundler_alias_map m = map (\<lambda>(k, v). (k, [v])) (alias_entries m)"

text \<open>The scripts of the README's \<open>package.json\<close> block.\<close>

definition package_json :: json where
  "package_json = JObj [
     (''scripts'', JObj [
        (''dev'', JStr ''vite --port=4000 --host''),
        (''build'', JStr ''tsc -b && vite build''),
        (''lint'', JStr ''eslint . --ext .js,.js,.jsx,.ts,.tsx''),
        (''format'', JStr (''prettier-eslint --write '' @ [CHR 0x22]
                            @ ''src/**/*.{js,jsx,ts,tsx}'' @ [CHR 0x22])),
        (''preview'', JStr ''vite preview'')])]"

definition scripts :: "(string \<times> string) list" where
  "scripts =
     (case field ''scripts'' package_json of None \<Rightarrow> []
      | Some s \<Rightarrow> List.map_filter (\<lambda>(k, v). map_option (Pair k) (str_of v)) (obj_fields s))"

text \<open>
  A command line is read as the shell reads these five: words are separated by
  blanks (no word of the scripts has a blank inside its quotes), and the word
  \<open>&&\<close> separates two invocations, the second of which runs when the first
  succeeded.
\<close>

definition shell_words :: "string \<Rightarrow> string list" where
  "shell_words cmd = filter (\<lambda>w. w \<noteq> []) (split_on CHR '' '' cmd)"

definition invocations :: "string \<Rightarrow> string list list" where
  "invocations cmd = split_on ''&&'' (shell_words cmd)"

text \<open>
  The characters with which a command line would read a variable or an argument
  of the caller, substitute a command, or combine commands other than by \<open>&&\<close>.
\<close>

definition shell_logic_chars :: "char list" where
  "shell_logic_chars = [CHR ''$'', CHR 0x60, CHR '';'', CHR ''|'', CHR ''<'', CHR ''>'',
     CHR ''('', CHR '')'']"

definition plain_command :: "string \<Rightarrow> bool" where
  "plain_command cmd = list_all (\<lambda>c. c \<notin> set shell_logic_chars) cmd"

section \<open>Evaluation of the linter configuration\<close>

lemma eslint_rules_eval:
  "eslint_rules = [
        (''react/jsx-key'', JStr ''warn''),
        (''react/prop-types'', JStr ''off''),
        (''react/display-name'', JStr ''warn''),
        (''react/no-children-prop'', JStr ''warn''),
        (''react/react-in-jsx-scope'', JStr ''off''),
        (''react/button-has-type'', JStr ''warn''),
        (''react-hooks/exhaustive-deps'', JStr ''off''),
        (''react-hooks/rules-of-hooks'', JStr ''error''),
        (''@typescript-eslint/no-unused-vars'', JStr ''warn''),
        (''no-case-declarations'', JStr ''warn''),
        (''no-console'', JStr ''warn''),
        (''react-refresh/only-export-components'', JStr ''warn''),
        (''@typescript-eslint/explicit-function-return-type'', JStr ''off''),
        (''@typescript-eslint/no-explicit-any'', JStr ''warn''),
        (''no-unsafe-optional-chaining'', JStr ''warn''),
        (''import/order'', JArr [
           JStr ''error'',
           JObj [(''groups'', JArr [
              JStr ''builtin'', JStr ''external'', JStr ''internal'',
              JStr ''parent'', JStr ''sibling''])]]),
        (''prettier/prettier'', JArr [
           JStr ''warn'',
           JObj [(''endOfLine'', JStr ''auto'')]])]"
  by (simp add: eslint_rules_def field_def eslintrc_def)

lemma eslint_plugins_eval:
  "eslint_plugins =
     [''react'', ''react-refresh'', ''react-hooks'', ''import'', ''@typescript-eslint'', ''prettier'']"
  by (simp add: eslint_plugins_def field_def eslintrc_def strings_of_def)

lemma eslint_extends_eval:
  "eslint_extends =
     [''eslint:recommended'', ''plugin:react/recommended'', ''plugin:react-hooks/recommended'',
      ''plugin:@typescript-eslint/eslint-recommended'', ''plugin:@typescript-eslint/recommended'',
      ''plugin:import/warnings'', ''plugin:import/typescript'', ''prettier'']"
  by (simp add: eslint_extends_def field_def eslintrc_def strings_of_def)

lemma extends_plugins_eval:
  "extends_plugins =
     [''react'', ''react-hooks'', ''@typescript-eslint'', ''@typescript-eslint'',
      ''import'', ''import'']"
  by (simp add: extends_plugins_def eslint_extends_eval
      extends_plugin_def starts_with_def before_last_slash_def)

lemma eslint_rule_plugins_eval:
  "map (\<lambda>(name, v). rule_plugin name) eslint_rules =
     [Some ''react'', Some ''react'', Some ''react'', Some ''react'', Some ''react'',
      Some ''react'', Some ''react-hooks'', Some ''react-hooks'',
      Some ''@typescript-eslint'', None, None, Some ''react-refresh'',
      Some ''@typescript-eslint'', Some ''@typescript-eslint'', None,
      Some ''import'', Some ''prettier'']"
  by (simp add: eslint_rules_eval rule_plugin_def before_last_slash_def)

section \<open>Claims about the linter configuration\<close>

text \<open>
  Claim C10.  In the \<open>rules\<close> map of the linter configuration every severity (the
  rule's value, or the first element of an array value) is one of the strings
  \<open>off\<close>, \<open>warn\<close>, \<open>error\<close>; exactly the two rules \<open>react-hooks/rules-of-hooks\<close>
  and \<open>import/order\<close> are at \<open>error\<close>; the four rules at \<open>off\<close> are listed, and
  every rule that is neither at \<open>off\<close> nor at \<open>error\<close> is at \<open>warn\<close>.
\<close>

theorem eslint_severities:
  "list_all (\<lambda>(name, v). severity v \<in> {Some (JStr ''off''), Some (JStr ''warn''), Some (JStr ''error'')})
     eslint_rules
   \<and> rules_with_severity ''error'' = [''react-hooks/rules-of-hooks'', ''import/order'']
   \<and> rules_with_severity ''off'' =
       [''react/prop-types'', ''react/react-in-jsx-scope'', ''react-hooks/exhaustive-deps'',
        ''@typescript-eslint/explicit-function-return-type'']
   \<and> list_all (\<lambda>(name, v). severity v = Some (JStr ''warn''))
       (filter (\<lambda>(name, v). name \<notin> set (rules_with_severity ''off'')
                           \<and> name \<notin> set (rules_with_severity ''error'')) eslint_rules)
   \<and> length (rules_with_severity ''warn'') = 11
   \<and> length eslint_rules = 17"
  by (simp add: rules_with_severity_def eslint_rules_eval)

section \<open>Facts about splitting and resolving paths\<close>

lemma split_on_nonempty: "split_on c s \<noteq> []"
  by (induction s) (auto split: list.splits)

lemma split_on_append: "split_on c (a @ c # b) = split_on c a @ split_on c b"
proof (induction a)
  case Nil
  show ?case by simp
next
  case (Cons x a)
  obtain s ss where "split_on c a = s # ss"
    using split_on_nonempty [of c a] by (cases "split_on c a") auto
  with Cons show ?case by simp
qed

lemma split_on_free: "s \<in> set (split_on c x) \<Longrightarrow> c \<notin> set s"
proof (induction x arbitrary: s)
  case Nil
  then show ?case by simp
next
  case (Cons y x)
  obtain t ts where sp: "split_on c x = t # ts"
    using split_on_nonempty [of c x] by (cases "split_on c x") auto
  show ?case
  proof (cases "y = c")
    case True
    with Cons show ?thesis by auto
  next
    case False
    with Cons.prems sp have "s = y # t \<or> s \<in> set ts" by simp
    then show ?thesis
    proof
      assume "s = y # t"
      moreover have "c \<notin> set t" using Cons.IH [of t] sp by simp
      ultimately show ?thesis using False by auto
    next
      assume "s \<in> set ts"
      then show ?thesis using Cons.IH [of s] sp by simp
    qed
  qed
qed

lemma split_on_single: "c \<notin> set s \<Longrightarrow> split_on c s = [s]"
  by (induction s) auto

lemma split_path_append: "split_path (a @ CHR ''/'' # b) = split_path a @ split_path b"
  by (simp add: split_path_def split_on_append)

lemma norm_step_regular: "\<not> special_segment s \<Longrightarrow> norm_step acc s = acc @ [s]"
  by (simp add: norm_step_def special_segment_def)

lemma foldl_norm_step_regular:
  "list_all (\<lambda>s. \<not> special_segment s) xs \<Longrightarrow> foldl norm_step acc xs = acc @ xs"
  by (induction xs arbitrary: acc) (simp_all add: norm_step_regular)

lemma foldl_norm_step_keeps:
  "list_all (\<lambda>s. \<not> special_segment s) acc \<Longrightarrow> list_all (\<lambda>s. CHR ''/'' \<notin> set s) xs
   \<Longrightarrow> list_all (\<lambda>s. \<not> special_segment s) (foldl norm_step acc xs)"
proof (induction xs arbitrary: acc)
  case Nil
  then show ?case by simp
next
  case (Cons x xs)
  have "list_all (\<lambda>s. \<not> special_segment s) (norm_step acc x)"
    using Cons.prems
    by (auto simp: norm_step_def special_segment_def list_all_iff dest: in_set_butlastD)
  then show ?case using Cons by simp
qed

lemma base_segments_regular: "list_all (\<lambda>s. \<not> special_segment s) (base_segments cwd d)"
  unfolding base_segments_def normalize_segments_def split_path_def
  by (rule foldl_norm_step_keeps) (auto simp: list_all_iff dest: split_on_free)

lemma split_path_concat:
  "list_all (\<lambda>s. CHR ''/'' \<notin> set s) segs \<Longrightarrow>
   split_path (concat (map (\<lambda>s. CHR ''/'' # s) segs)) = [] # segs"
proof (induction segs)
  case Nil
  show ?case by (simp add: split_path_def)
next
  case (Cons s segs)
  then have sf: "CHR ''/'' \<notin> set s"
    and ih: "split_path (concat (map (\<lambda>s. CHR ''/'' # s) segs)) = [] # segs"
    by simp_all
  show ?case
  proof (cases segs)
    case Nil
    with sf show ?thesis by (simp add: split_path_def split_on_single)
  next
    case (Cons t ts)
    have "split_on CHR ''/'' (s @ CHR ''/'' # (t @ concat (map (\<lambda>s. CHR ''/'' # s) ts))) = [s] @ (t # ts)"
      using ih Cons sf by (simp add: split_path_def split_on_append split_on_single)
    then show ?thesis using Cons by (simp add: split_path_def)
  qed
qed

lemma normalize_render:
  assumes "list_all (\<lambda>s. \<not> special_segment s) segs"
  shows "normalize_segments (split_path (render_path segs)) = segs"
proof (cases segs)
  case Nil
  then show ?thesis
    by (simp add: render_path_def normalize_segments_def norm_step_def split_path_def)
next
  case (Cons s ss)
  have "list_all (\<lambda>s. CHR ''/'' \<notin> set s) segs"
    using assms by (auto simp: list_all_iff special_segment_def)
  then have "split_path (render_path segs) = [] # segs"
    using Cons split_path_concat [of segs] by (simp add: render_path_def)
  then show ?thesis
    using foldl_norm_step_regular [OF assms, of "[]"]
    by (simp add: normalize_segments_def norm_step_def)
qed

lemma render_path_absolute: "is_absolute (render_path segs)"
  by (cases segs) (simp_all add: render_path_def is_absolute_def)

lemma path_resolve_relative:
  "\<not> is_absolute p \<Longrightarrow>
   path_resolve cwd d p = render_path (foldl norm_step (base_segments cwd d) (split_path p))"
  by (simp add: path_resolve_def base_segments_def normalize_segments_def split_path_append
      flip: append_assoc)

lemma path_resolve_rendered:
  "\<not> is_absolute p \<Longrightarrow> list_all (\<lambda>s. \<not> special_segment s) segs \<Longrightarrow>
   path_resolve cwd (render_path segs) p = render_path (foldl norm_step segs (split_path p))"
  by (simp add: path_resolve_relative base_segments_def render_path_absolute normalize_render)

lemma base_segments_render:
  "list_all (\<lambda>s. \<not> special_segment s) segs \<Longrightarrow> base_segments cwd (render_path segs) = segs"
  by (simp add: base_segments_def render_path_absolute normalize_render)

lemma resolve_base_url:
  "path_resolve cwd d ''./'' = render_path (base_segments cwd d)"
  by (simp add: path_resolve_relative is_absolute_def split_path_def norm_step_def)

text \<open>Resolving against the resolved \<open>./\<close> of a directory is resolving against the directory.\<close>

lemma resolve_via_base_url:
  "\<not> is_absolute t \<Longrightarrow>
   path_resolve cwd (path_resolve cwd d ''./'') t = path_resolve cwd d t"
  by (simp add: resolve_base_url path_resolve_relative base_segments_render
      base_segments_regular)

section \<open>Evaluation of the alias maps\<close>

lemma alias_entries_eval:
  "alias_entries (vite_config_ts cwd d react) = 
    [(''@UI'', path_resolve cwd d ''./src/shared/UI''),
     (''@services'', path_resolve cwd d ''./src/app/api/services''),
     (''@servicesTypes'', path_resolve cwd d ''./src/app/api/types''),
     (''@constants'', path_resolve cwd d ''./src/app/constants''),
     (''@app'', path_resolve cwd d ''./src/app''),
     (''@assets'', path_resolve cwd d ''./src/assets''),
     (''@components'', path_resolve cwd d ''./src/components''),
     (''@shadecn'', path_resolve cwd d ''./src/shadecn''),
     (''@hooks'', path_resolve cwd d ''./src/hooks''),
     (''@store'', path_resolve cwd d ''./src/store''),
     (''@'', path_resolve cwd d ''./src'')]"
  by (simp add: alias_entries_def config_alias_def default_export_def vite_config_ts_def
     defineConfig_def js_field_def)

lemma tsconfig_paths_eval:
  "tsconfig_paths = [
           (''@UI/*'', JArr [JStr ''src/shared/UI/*'']),
           (''@services/*'', JArr [JStr ''src/app/api/services/*'']),
           (''@servicesTypes/*'', JArr [JStr ''src/app/api/types/*'']),
           (''@constants/*'', JArr [JStr ''src/app/constants/*'']),
           (''@app/*'', JArr [JStr ''src/app/*'']),
           (''@store/*'', JArr [JStr ''src/store/*'']),
           (''@shadecn/*'', JArr [JStr ''src/shadecn/*'']),
           (''@components/*'', JArr [JStr ''src/components/*'']),
           (''@assets/*'', JArr [JStr ''src/assets/*'']),
           (''@hooks'', JArr [JStr ''src/hooks'']),
           (''@/*'', JArr [JStr ''src/*''])]"
  by (simp add: tsconfig_paths_def tsconfig_json_def field_def)

lemma tsconfig_base_url_eval: "tsconfig_base_url = ''./''"
  by (simp add: tsconfig_base_url_def tsconfig_json_def field_def)

lemma bundler_alias_map_eval:
  "bundler_alias_map (vite_config_ts cwd d react) = 
    [(''@UI'', [project_dir cwd d @ ''/src/shared/UI'']),
     (''@services'', [project_dir cwd d @ ''/src/app/api/services'']),
     (''@servicesTypes'', [project_dir cwd d @ ''/src/app/api/types'']),
     (''@constants'', [project_dir cwd d @ ''/src/app/constants'']),
     (''@app'', [project_dir cwd d @ ''/src/app'']),
     (''@assets'', [project_dir cwd d @ ''/src/assets'']),
     (''@components'', [project_dir cwd d @ ''/src/components'']),
     (''@shadecn'', [project_dir cwd d @ ''/src/shadecn'']),
     (''@hooks'', [project_dir cwd d @ ''/src/hooks'']),
     (''@store'', [project_dir cwd d @ ''/src/store'']),
     (''@'', [project_dir cwd d @ ''/src''])]"
  by (simp add: bundler_alias_map_def alias_entries_eval path_resolve_relative is_absolute_def
      split_path_def norm_step_def render_path_def project_dir_def)

lemma ts_alias_map_resolved:
  "ts_alias_map cwd d = 
    [(''@UI'', [path_resolve cwd d ''src/shared/UI'']),
     (''@services'', [path_resolve cwd d ''src/app/api/services'']),
     (''@servicesTypes'', [path_resolve cwd d ''src/app/api/types'']),
     (''@constants'', [path_resolve cwd d ''src/app/constants'']),
     (''@app'', [path_resolve cwd d ''src/app'']),
     (''@store'', [path_resolve cwd d ''src/store'']),
     (''@shadecn'', [path_resolve cwd d ''src/shadecn'']),
     (''@components'', [path_resolve cwd d ''src/components'']),
     (''@assets'', [path_resolve cwd d ''src/assets'']),
     (''@hooks'', [path_resolve cwd d ''src/hooks'']),
     (''@'', [path_resolve cwd d ''src''])]"
  by (simp add: ts_alias_map_def tsconfig_paths_eval tsconfig_base_url_eval strings_of_def
      strip_wildcard_def ends_with_def resolve_via_base_url is_absolute_def)

lemma ts_alias_map_eval:
  "ts_alias_map cwd d = 
    [(''@UI'', [project_dir cwd d @ ''/src/shared/UI'']),
     (''@services'', [project_dir cwd d @ ''/src/app/api/services'']),
     (''@servicesTypes'', [project_dir cwd d @ ''/src/app/api/types'']),
     (''@constants'', [project_dir cwd d @ ''/src/app/constants'']),
     (''@app'', [project_dir cwd d @ ''/src/app'']),
     (''@store'', [project_dir cwd d @ ''/src/store'']),
     (''@shadecn'', [project_dir cwd d @ ''/src/shadecn'']),
     (''@components'', [project_dir cwd d @ ''/src/components'']),
     (''@assets'', [project_dir cwd d @ ''/src/assets'']),
     (''@hooks'', [project_dir cwd d @ ''/src/hooks'']),
     (''@'', [project_dir cwd d @ ''/src''])]"
  by (simp add: ts_alias_map_resolved path_resolve_relative
      is_absolute_def split_path_def norm_step_def render_path_def project_dir_def)

lemma alias_paths_eval:
  "alias_entries (vite_config_ts cwd d react) =
    [(''@UI'', project_dir cwd d @ ''/src/shared/UI''),
     (''@services'', project_dir cwd d @ ''/src/app/api/services''),
     (''@servicesTypes'', project_dir cwd d @ ''/src/app/api/types''),
     (''@constants'', project_dir cwd d @ ''/src/app/constants''),
     (''@app'', project_dir cwd d @ ''/src/app''),
     (''@assets'', project_dir cwd d @ ''/src/assets''),
     (''@components'', project_dir cwd d @ ''/src/components''),
     (''@shadecn'', project_dir cwd d @ ''/src/shadecn''),
     (''@hooks'', project_dir cwd d @ ''/src/hooks''),
     (''@store'', project_dir cwd d @ ''/src/store''),
     (''@'', project_dir cwd d @ ''/src'')]"
  by (simp add: alias_entries_eval path_resolve_relative is_absolute_def
      split_path_def norm_step_def render_path_def project_dir_def)

lemma resolve_src_eval: "path_resolve cwd d ''./src'' = project_dir cwd d @ ''/src''"
  by (simp add: path_resolve_relative is_absolute_def
      split_path_def norm_step_def render_path_def project_dir_def)

text \<open>
  Of the keys of \<open>paths\<close>, \<open>@hooks\<close> alone is written without the wildcard (and
  so is its target); the other ten end in \<open>/*\<close>.
\<close>

lemma tsconfig_paths_without_wildcard:
  "filter (\<lambda>(k, targets). \<not> ends_with ''/*'' k) tsconfig_paths
     = [(''@hooks'', JArr [JStr ''src/hooks''])]"
  by (simp add: tsconfig_paths_eval ends_with_def)

lemma scripts_eval:
  "scripts = [
     (''dev'', ''vite --port=4000 --host''),
     (''build'', ''tsc -b && vite build''),
     (''lint'', ''eslint . --ext .js,.js,.jsx,.ts,.tsx''),
     (''format'', ''prettier-eslint --write '' @ [CHR 0x22]
                    @ ''src/**/*.{js,jsx,ts,tsx}'' @ [CHR 0x22]),
     (''preview'', ''vite preview'')]"
  by (simp add: scripts_def package_json_def field_def)

text \<open>
  The alias map on an example: the project in \<open>/home/dev/app\<close>, whatever the
  working directory.
\<close>

lemma alias_entries_example:
  "alias_entries (vite_config_ts ''/tmp'' ''/home/dev/app'' react) =
    [(''@UI'', ''/home/dev/app/src/shared/UI''),
     (''@services'', ''/home/dev/app/src/app/api/services''),
     (''@servicesTypes'', ''/home/dev/app/src/app/api/types''),
     (''@constants'', ''/home/dev/app/src/app/constants''),
     (''@app'', ''/home/dev/app/src/app''),
     (''@assets'', ''/home/dev/app/src/assets''),
     (''@components'', ''/home/dev/app/src/components''),
     (''@shadecn'', ''/home/dev/app/src/shadecn''),
     (''@hooks'', ''/home/dev/app/src/hooks''),
     (''@store'', ''/home/dev/app/src/store''),
     (''@'', ''/home/dev/app/src'')]"
  by (simp add: alias_entries_eval path_resolve_def is_absolute_def split_path_def
      normalize_segments_def norm_step_def render_path_def)

lemma ts_alias_map_example:
  "ts_alias_map ''/tmp'' ''/home/dev/app'' =
    [(''@UI'', [''/home/dev/app/src/shared/UI'']),
     (''@services'', [''/home/dev/app/src/app/api/services'']),
     (''@servicesTypes'', [''/home/dev/app/src/app/api/types'']),
     (''@constants'', [''/home/dev/app/src/app/constants'']),
     (''@app'', [''/home/dev/app/src/app'']),
     (''@store'', [''/home/dev/app/src/store'']),
     (''@shadecn'', [''/home/dev/app/src/shadecn'']),
     (''@components'', [''/home/dev/app/src/components'']),
     (''@assets'', [''/home/dev/app/src/assets'']),
     (''@hooks'', [''/home/dev/app/src/hooks'']),
     (''@'', [''/home/dev/app/src''])]"
  by (simp add: ts_alias_map_def tsconfig_paths_eval tsconfig_base_url_eval strings_of_def
      strip_wildcard_def ends_with_def path_resolve_def is_absolute_def split_path_def
      normalize_segments_def norm_step_def render_path_def)

section \<open>Claims about the alias maps\<close>

text \<open>
  Claim C1.  The alias map of the bundler (\<open>resolve.alias\<close> of \<open>vite.config.ts\<close>)
  and the alias map of the type checker (\<open>compilerOptions.paths\<close> of the
  README's \<open>tsconfig.json\<close>) declare the same aliases with the same
  directories: read as sets of pairs of an alias and its resolved directories
  the two maps are equal, and no alias occurs twice in either.  Both files lie
  in the project directory \<open>dirname\<close> (the \<open>include\<close> of \<open>tsconfig.node.json\<close>
  names \<open>vite.config.ts\<close> beside it); an alias of \<open>paths\<close> is its key without
  the final \<open>/*\<close>, and a directory its target without it.
\<close>

theorem alias_maps_agree:
  "set (bundler_alias_map (vite_config_ts cwd dirname react)) = set (ts_alias_map cwd dirname)
   \<and> set (map fst (bundler_alias_map (vite_config_ts cwd dirname react)))
       = set (map fst (ts_alias_map cwd dirname))
   \<and> distinct (map fst (bundler_alias_map (vite_config_ts cwd dirname react)))
   \<and> distinct (map fst (ts_alias_map cwd dirname))
   \<and> length (bundler_alias_map (vite_config_ts cwd dirname react)) = 11
   \<and> length (ts_alias_map cwd dirname) = 11"
  unfolding bundler_alias_map_eval ts_alias_map_eval by auto

text \<open>
  Claim C9.  Every value of \<open>resolve.alias\<close> is the resolved \<open>./src\<close> of the
  project or a path below it; the last entry is the alias \<open>@\<close>, which stands
  for \<open>./src\<close> itself; the ten entries before it are other aliases that begin
  with \<open>@\<close>, and each of them stands for a path properly below \<open>./src\<close>.
\<close>

theorem alias_targets_inside_src:
  "list_all (\<lambda>(k, v). inside_dir (path_resolve cwd dirname ''./src'') v)
     (alias_entries (vite_config_ts cwd dirname react))
   \<and> last (alias_entries (vite_config_ts cwd dirname react))
       = (''@'', path_resolve cwd dirname ''./src'')
   \<and> length (butlast (alias_entries (vite_config_ts cwd dirname react))) = 10
   \<and> list_all (\<lambda>(k, v). k \<noteq> ''@'' \<and> starts_with ''@'' k
                 \<and> below_dir (path_resolve cwd dirname ''./src'') v)
       (butlast (alias_entries (vite_config_ts cwd dirname react)))"
  unfolding alias_paths_eval resolve_src_eval
  by (simp add: inside_dir_def below_dir_def starts_with_def)

section \<open>Claims about the bundler configuration\<close>

text \<open>
  Claim C3.  The module \<open>vite.config.ts\<close> has one export, the default export.
  It is an object with the two fields \<open>resolve\<close> and \<open>plugins\<close>; \<open>resolve\<close>
  holds the one field \<open>alias\<close>, an object all of whose values are strings
  (the resolved paths); \<open>plugins\<close> is an array, of the one value \<open>react()\<close>.
\<close>

theorem vite_config_shape:
  "export_names (vite_config_ts cwd dirname react) = [''default'']
   \<and> map_option js_keys (default_export (vite_config_ts cwd dirname react))
       = Some [''resolve'', ''plugins'']
   \<and> map_option (\<lambda>cfg. map_option js_keys (js_field ''resolve'' cfg))
         (default_export (vite_config_ts cwd dirname react)) = Some (Some [''alias''])
   \<and> map_option js_is_object (config_alias (vite_config_ts cwd dirname react)) = Some True
   \<and> map_option (\<lambda>a. list_all (\<lambda>(k, v). js_is_string v) (js_fields a))
         (config_alias (vite_config_ts cwd dirname react)) = Some True
   \<and> map_option js_is_array (config_plugins (vite_config_ts cwd dirname react)) = Some True
   \<and> map_option js_elements (config_plugins (vite_config_ts cwd dirname react))
       = Some [VExt (react ())]"
  by (simp add: export_names_def default_export_def config_alias_def config_plugins_def
      vite_config_ts_def defineConfig_def js_field_def js_keys_def)

text \<open>
  Claim C8.  The configuration printed in the README is the configuration of
  \<open>vite.config.ts\<close>: the two modules are the same value, so they have the same
  eleven aliases, for the same paths, in the same order, and the same list of
  one plugin.
\<close>

theorem readme_vite_config_agrees:
  "readme_vite_config_js cwd dirname react = vite_config_ts cwd dirname react
   \<and> alias_entries (readme_vite_config_js cwd dirname react)
       = alias_entries (vite_config_ts cwd dirname react)
   \<and> map fst (alias_entries (vite_config_ts cwd dirname react))
       = [''@UI'', ''@services'', ''@servicesTypes'', ''@constants'', ''@app'', ''@assets'',
          ''@components'', ''@shadecn'', ''@hooks'', ''@store'', ''@'']
   \<and> length (alias_entries (readme_vite_config_js cwd dirname react)) = 11
   \<and> config_plugins (readme_vite_config_js cwd dirname react) = Some (VArr [VExt (react ())])
   \<and> config_plugins (vite_config_ts cwd dirname react) = Some (VArr [VExt (react ())])"
proof -
  have same: "readme_vite_config_js cwd dirname react = vite_config_ts cwd dirname react"
    by (simp add: readme_vite_config_js_def vite_config_ts_def)
  have plugins: "config_plugins (vite_config_ts cwd dirname react) = Some (VArr [VExt (react ())])"
    by (simp add: config_plugins_def default_export_def vite_config_ts_def defineConfig_def
        js_field_def)
  show ?thesis
    unfolding same by (simp add: plugins alias_entries_eval)
qed

section \<open>Claims about the shape of the JSON configurations\<close>

text \<open>
  Claim C2.  Every rule named in \<open>rules\<close> of the linter configuration is
  declared: it is a rule of the linter's core (a name with no slash) while
  \<open>extends\<close> lists \<open>eslint:recommended\<close>, or the plugin it names is an entry
  of \<open>plugins\<close> or the plugin of an entry of \<open>extends\<close>.  The plugins named by
  rules are the six of the claim, and all six are entries of \<open>plugins\<close>.
\<close>

theorem eslint_rules_declared:
  "list_all (\<lambda>(name, v). rule_declared name) eslint_rules
   \<and> ''eslint:recommended'' \<in> set eslint_extends
   \<and> remdups (List.map_filter (\<lambda>(name, v). rule_plugin name) eslint_rules)
       = [''react'', ''react-hooks'', ''react-refresh'', ''@typescript-eslint'', ''import'',
          ''prettier'']
   \<and> list_all (\<lambda>p. p \<in> set eslint_plugins)
         (List.map_filter (\<lambda>(name, v). rule_plugin name) eslint_rules)
   \<and> map fst (filter (\<lambda>(name, v). rule_plugin name = None) eslint_rules)
       = [''no-case-declarations'', ''no-console'', ''no-unsafe-optional-chaining'']"
  by (simp add: eslint_rules_eval rule_declared_def rule_plugin_def before_last_slash_def
      eslint_plugins_eval eslint_extends_eval extends_plugins_eval List.map_filter_def)

text \<open>
  Claim C4.  The linter configuration is an object whose keys are \<open>env\<close>,
  \<open>extends\<close>, \<open>parser\<close>, \<open>parserOptions\<close>, \<open>plugins\<close>, \<open>rules\<close> and \<open>settings\<close>,
  each once and no other; \<open>rules\<close> is an object, and each of its values is a
  severity string or an array of a severity string and its options.
\<close>

theorem eslintrc_shape:
  "is_object eslintrc
   \<and> keys eslintrc = [''env'', ''extends'', ''parser'', ''parserOptions'', ''plugins'',
        ''rules'', ''settings'']
   \<and> distinct (keys eslintrc)
   \<and> map_option is_object (field ''rules'' eslintrc) = Some True
   \<and> list_all (\<lambda>(name, v). rule_value_ok v) eslint_rules
   \<and> distinct (map fst eslint_rules)"
  by (simp add: eslint_rules_eval) (simp add: eslintrc_def keys_def field_def)

text \<open>
  Claim C5, with \<open>references\<close> where it is declared.  Each of the three type-checker
  configurations is an object with a \<open>compilerOptions\<close> object (holding
  \<open>target\<close>, \<open>module\<close>, \<open>lib\<close> and \<open>strict\<close>, and, where it holds \<open>paths\<close>, an
  object there) and an \<open>include\<close> array.  A \<open>references\<close> array and a \<open>paths\<close>
  map are declared by \<open>tsconfig.json\<close> alone; \<open>tsconfig.node.json\<close> and
  \<open>tsconfig.app.json\<close> have the two keys \<open>compilerOptions\<close> and \<open>include\<close> only.
\<close>

theorem tsconfigs_shape:
  "list_all (\<lambda>(name, j). has_compiler_options j \<and> has_include j) tsconfigs
   \<and> map (\<lambda>(name, j). (name, keys j)) tsconfigs =
       [(''tsconfig.json'', [''compilerOptions'', ''include'', ''references'']),
        (''tsconfig.node.json'', [''compilerOptions'', ''include'']),
        (''tsconfig.app.json'', [''compilerOptions'', ''include''])]
   \<and> map (\<lambda>(name, j). (name, has_references j)) tsconfigs =
       [(''tsconfig.json'', True), (''tsconfig.node.json'', False),
        (''tsconfig.app.json'', False)]
   \<and> map (\<lambda>(name, j). (name, field_is is_object [''compilerOptions'', ''paths''] j)) tsconfigs =
       [(''tsconfig.json'', True), (''tsconfig.node.json'', False),
        (''tsconfig.app.json'', False)]"
  by (simp add: tsconfigs_def has_compiler_options_def has_include_def has_references_def
      field_is_def field_missing_or_def field_def keys_def
      tsconfig_json_def tsconfig_node_json_def tsconfig_app_json_def)

text \<open>
  Claim C5 as it is worded asks a \<open>references\<close> array of each of the three
  configurations; \<open>tsconfig.node.json\<close> has no key \<open>references\<close>.
\<close>

theorem tsconfig_node_no_references:
  "field ''references'' tsconfig_node_json = None \<and> \<not> has_references tsconfig_node_json"
  by (simp add: has_references_def field_is_def field_def tsconfig_node_json_def)

text \<open>
  Claim C6.  The scripts are \<open>dev\<close>, \<open>build\<close>, \<open>lint\<close>, \<open>format\<close> and
  \<open>preview\<close>, and no other.  Each command is an invocation of its tool with
  the constant words shown; \<open>build\<close> is made of two, \<open>tsc\<close> and then \<open>vite\<close>,
  joined by \<open>&&\<close>.  No command reads a variable or an argument, substitutes a
  command, redirects, or combines commands in any other way.  (The pattern of
  \<open>format\<close> is shown with the double quotes the command line has around it.)
\<close>

theorem script_commands:
  "map fst scripts = [''dev'', ''build'', ''lint'', ''format'', ''preview'']
   \<and> map (\<lambda>(name, cmd). invocations cmd) scripts =
       [[[''vite'', ''--port=4000'', ''--host'']],
        [[''tsc'', ''-b''], [''vite'', ''build'']],
        [[''eslint'', ''.'', ''--ext'', ''.js,.js,.jsx,.ts,.tsx'']],
        [[''prettier-eslint'', ''--write'',
          [CHR 0x22] @ ''src/**/*.{js,jsx,ts,tsx}'' @ [CHR 0x22]]],
        [[''vite'', ''preview'']]]
   \<and> list_all (\<lambda>(name, cmd). plain_command cmd) scripts"
  by (simp add: scripts_eval invocations_def shell_words_def plain_command_def
      shell_logic_chars_def)

end
